theory Spec2Isabelle
  imports Complex_Main "HOL-Library.Multiset" "HOL-Library.Sublist"
begin

section \<open>Strings\<close>

text \<open>
  Python strings are modelled as \<^typ>\<open>string\<close>, a character being a code point below 256;
  Python integers are \<^typ>\<open>int\<close>. The character classes below are those of Python's
  \<^verbatim>\<open>str.isspace\<close> (also the class \<^verbatim>\<open>\s\<close> of \<^verbatim>\<open>re\<close>) and of the class \<^verbatim>\<open>\w\<close>,
  on these code points.
\<close>

definition is_space :: "char \<Rightarrow> bool" where
  "is_space c = (let n = (of_char c :: nat) in
     (9 \<le> n \<and> n \<le> 13) \<or> (28 \<le> n \<and> n \<le> 32) \<or> n = 133 \<or> n = 160)"

definition is_word :: "char \<Rightarrow> bool" where
  "is_word c = (let n = (of_char c :: nat) in
     (48 \<le> n \<and> n \<le> 57) \<or> (65 \<le> n \<and> n \<le> 90) \<or> n = 95 \<or> (97 \<le> n \<and> n \<le> 122) \<or>
     n = 170 \<or> (178 \<le> n \<and> n \<le> 179) \<or> n = 181 \<or> (185 \<le> n \<and> n \<le> 186) \<or>
     (188 \<le> n \<and> n \<le> 190) \<or> (192 \<le> n \<and> n \<le> 214) \<or> (216 \<le> n \<and> n \<le> 246) \<or>
     (248 \<le> n \<and> n \<le> 255))"

text \<open>\<^verbatim>\<open>sub in s\<close>: \<open>sub\<close> occurs in \<open>s\<close> as a contiguous substring.\<close>

fun py_in :: "string \<Rightarrow> string \<Rightarrow> bool" where
  "py_in sub [] = (sub = [])"
| "py_in sub (c # cs) = (prefix sub (c # cs) \<or> py_in sub cs)"

text \<open>\<^verbatim>\<open>s.strip()\<close>, \<^verbatim>\<open>s.startswith(p)\<close>, \<^verbatim>\<open>s.count(c)\<close> for one character, \<^verbatim>\<open>s.lower()\<close>.\<close>

definition strip :: "string \<Rightarrow> string" where
  "strip s = rev (dropWhile is_space (rev (dropWhile is_space s)))"

definition startswith :: "string \<Rightarrow> string \<Rightarrow> bool" where
  "startswith s p = prefix p s"

definition py_count :: "string \<Rightarrow> char \<Rightarrow> int" where
  "py_count s c = int (length (filter (\<lambda>x. x = c) s))"

definition lower_char :: "char \<Rightarrow> char" where
  "lower_char c = (let n = (of_char c :: nat) in
     if (65 \<le> n \<and> n \<le> 90) \<or> (192 \<le> n \<and> n \<le> 214) \<or> (216 \<le> n \<and> n \<le> 222)
     then char_of (n + 32) else c)"

definition lower :: "string \<Rightarrow> string" where
  "lower s = map lower_char s"

text \<open>\<^verbatim>\<open>s.split(sep)\<close> for a one-character separator: at least one piece.\<close>

fun split :: "char \<Rightarrow> string \<Rightarrow> string list" where
  "split sep [] = [[]]"
| "split sep (c # cs) =
     (if c = sep then [] # split sep cs
      else (case split sep cs of p # ps \<Rightarrow> (c # p) # ps | [] \<Rightarrow> [[c]]))"

text \<open>\<^verbatim>\<open>sep.join(xs)\<close>.\<close>

fun join :: "string \<Rightarrow> string list \<Rightarrow> string" where
  "join sep [] = []"
| "join sep [x] = x"
| "join sep (x # y # ys) = x @ sep @ join sep (y # ys)"

text \<open>The decimal text of an integer, as an f-string prints it.\<close>

fun str_nat :: "nat \<Rightarrow> string" where
  "str_nat n = (if n < 10 then [char_of (48 + n)]
                else str_nat (n div 10) @ [char_of (48 + n mod 10)])"

definition str_int :: "int \<Rightarrow> string" where
  "str_int i = (if i < 0 then CHR ''-'' # str_nat (nat (- i)) else str_nat (nat i))"

text \<open>
  The exceptions of the model. \<^verbatim>\<open>xs[i]\<close>: a negative index counts from the end, an index
  out of range raises \<^verbatim>\<open>IndexError\<close>.
\<close>

datatype error =
    IndexError | KeyError | TypeError | AttributeError | ValueError | JSONDecodeError
  | TimeoutExpired | FileNotFoundError | PermissionError | OSError

definition py_getitem :: "'a list \<Rightarrow> int \<Rightarrow> error + 'a" where
  "py_getitem xs i =
     (if 0 \<le> i \<and> i < int (length xs) then Inr (xs ! nat i)
      else if i < 0 \<and> - int (length xs) \<le> i then Inr (xs ! nat (int (length xs) + i))
      else Inl IndexError)"

text \<open>\<^verbatim>\<open>enumerate(xs, 1)\<close>.\<close>

definition enumerate1 :: "'a list \<Rightarrow> (int \<times> 'a) list" where
  "enumerate1 xs = zip (map int [1..<Suc (length xs)]) xs"

text \<open>A \<^verbatim>\<open>for\<close> loop whose body may raise: the first error ends it.\<close>

fun fold_err :: "('a \<Rightarrow> 's \<Rightarrow> error + 's) \<Rightarrow> 'a list \<Rightarrow> 's \<Rightarrow> error + 's" where
  "fold_err f [] s = Inr s"
| "fold_err f (x # xs) s = (case f x s of Inl e \<Rightarrow> Inl e | Inr s' \<Rightarrow> fold_err f xs s')"

section \<open>Regular expressions\<close>

text \<open>
  The patterns of the checker are sequences of literals, alternations of literals, greedy
  repetitions of one character class and the word boundary \<^verbatim>\<open>\b\<close>. A pattern is the list
  of its items. \<open>rx_at\<close> is the backtracking matcher of \<^verbatim>\<open>re\<close> at one position: it tries
  alternatives left to right and repetition counts from the longest down, and returns the
  text consumed by each item of the first match found, so that a group is read off at the
  index of its item. \<open>prev\<close> is the character before the position, for \<^verbatim>\<open>\b\<close>.
\<close>

datatype rx_atom =
    Lit string
  | Alts "string list"
  | Rep "char \<Rightarrow> bool" nat "nat option"
  | WordB

type_synonym regex = "rx_atom list"

fun first_some :: "'a option list \<Rightarrow> 'a option" where
  "first_some [] = None"
| "first_some (None # xs) = first_some xs"
| "first_some (Some x # xs) = Some x"

definition last_char :: "char option \<Rightarrow> string \<Rightarrow> char option" where
  "last_char prev t = (if t = [] then prev else Some (last t))"

definition at_boundary :: "char option \<Rightarrow> string \<Rightarrow> bool" where
  "at_boundary prev s =
     ((case prev of None \<Rightarrow> False | Some c \<Rightarrow> is_word c)
      \<noteq> (case s of [] \<Rightarrow> False | c # _ \<Rightarrow> is_word c))"

fun rx_at :: "regex \<Rightarrow> char option \<Rightarrow> string \<Rightarrow> string list option" where
  "rx_at [] prev s = Some []"
| "rx_at (Lit l # r) prev s =
     (if prefix l s
      then map_option ((#) l) (rx_at r (last_char prev l) (drop (length l) s))
      else None)"
| "rx_at (Alts ls # r) prev s =
     first_some (map (\<lambda>l. if prefix l s
                             then map_option ((#) l)
                                    (rx_at r (last_char prev l) (drop (length l) s))
                             else None) ls)"
| "rx_at (Rep p lo hi # r) prev s =
     (let avail = length (takeWhile p s);
          most = (case hi of None \<Rightarrow> avail | Some h \<Rightarrow> min avail h)
      in first_some (map (\<lambda>k. map_option ((#) (take k s))
                                   (rx_at r (last_char prev (take k s)) (drop k s)))
                         (rev [lo..<Suc most])))"
| "rx_at (WordB # r) prev s =
     (if at_boundary prev s then map_option ((#) []) (rx_at r prev s) else None)"

text \<open>\<^verbatim>\<open>re.search\<close> tries every start position from the left, the end of the text included.\<close>

fun rx_from :: "regex \<Rightarrow> char option \<Rightarrow> string \<Rightarrow> string list option" where
  "rx_from r prev [] = rx_at r prev []"
| "rx_from r prev (c # cs) =
     (case rx_at r prev (c # cs) of Some g \<Rightarrow> Some g | None \<Rightarrow> rx_from r (Some c) cs)"

definition re_match :: "regex \<Rightarrow> string \<Rightarrow> string list option" where
  "re_match r s = rx_at r None s"

definition re_search :: "regex \<Rightarrow> string \<Rightarrow> string list option" where
  "re_search r s = rx_from r None s"

definition matched :: "string list option \<Rightarrow> bool" where
  "matched m = (m \<noteq> None)"

abbreviation rx_plus :: "(char \<Rightarrow> bool) \<Rightarrow> rx_atom" where
  "rx_plus p \<equiv> Rep p 1 None"

abbreviation rx_star :: "(char \<Rightarrow> bool) \<Rightarrow> rx_atom" where
  "rx_star p \<equiv> Rep p 0 None"

abbreviation rx_opt :: "char \<Rightarrow> rx_atom" where
  "rx_opt c \<equiv> Rep (\<lambda>x. x = c) 0 (Some 1)"

definition not_rparen :: "char \<Rightarrow> bool" where
  "not_rparen c = (c \<noteq> CHR '')'')"

definition is_a_to_z :: "char \<Rightarrow> bool" where
  "is_a_to_z c = (97 \<le> (of_char c :: nat) \<and> (of_char c :: nat) \<le> 122)"

text \<open>The patterns of the checker, each under the rule that uses it.\<close>

text \<open>rule 1: \<^verbatim>\<open>(\w+)\s*\([^)]*\)\s*\{\<close>; group 1 is item 0.\<close>

definition rx_call_brace :: regex where
  "rx_call_brace = [rx_plus is_word, rx_star is_space, Lit ''('', rx_star not_rparen, Lit '')'',
                    rx_star is_space, Lit ''{'']"

text \<open>rule 2: \<^verbatim>\<open>\s*while\s*\(\<close>.\<close>

definition rx_while_paren :: regex where
  "rx_while_paren = [rx_star is_space, Lit ''while'', rx_star is_space, Lit ''('']"

text \<open>rule 4: \<^verbatim>\<open>\w+\s+\w+\s*\(([^)]*)\)\s*\{?\<close>; group 1 is item 5. Comment coverage uses the
  same pattern without the group.\<close>

definition rx_signature :: regex where
  "rx_signature = [rx_plus is_word, rx_plus is_space, rx_plus is_word, rx_star is_space, Lit ''('',
                   rx_star not_rparen, Lit '')'', rx_star is_space, rx_opt (CHR ''{'')]"

text \<open>rules 6 and 7, function length: \<^verbatim>\<open>\w+\s+\w+\s*\([^)]*\)\s*\{\<close>.\<close>

definition rx_function_start :: regex where
  "rx_function_start = [rx_plus is_word, rx_plus is_space, rx_plus is_word, rx_star is_space,
                        Lit ''('', rx_star not_rparen, Lit '')'', rx_star is_space, Lit ''{'']"

text \<open>rule 6: \<^verbatim>\<open>\s*(int|char|float|double|long|short|unsigned|signed)\s+\w+\<close>.\<close>

definition rx_declaration :: regex where
  "rx_declaration = [rx_star is_space,
                     Alts [''int'', ''char'', ''float'', ''double'', ''long'', ''short'',
                           ''unsigned'', ''signed''],
                     rx_plus is_space, rx_plus is_word]"

text \<open>rule 9: \<^verbatim>\<open>(while|if)\s*\([^)]*=\s*[^)]*\)\<close>.\<close>

definition rx_assign_in_condition :: regex where
  "rx_assign_in_condition = [Alts [''while'', ''if''], rx_star is_space, Lit ''('',
                             rx_star not_rparen, Lit ''='', rx_star is_space,
                             rx_star not_rparen, Lit '')'']"

text \<open>naming: \<^verbatim>\<open>\b(int|char|float|double)\s+([a-z]{1,2})\b\<close>; group 2 is item 3.\<close>

definition rx_short_name :: regex where
  "rx_short_name = [WordB, Alts [''int'', ''char'', ''float'', ''double''], rx_plus is_space,
                    Rep is_a_to_z 1 (Some 2), WordB]"

text \<open>error handling: \<^verbatim>\<open>void\s+\w+\s*\([^)]*\)\s*\{?\<close>.\<close>

definition rx_void_function :: regex where
  "rx_void_function = [Lit ''void'', rx_plus is_space, rx_plus is_word, rx_star is_space, Lit ''('',
                       rx_star not_rparen, Lit '')'', rx_star is_space, rx_opt (CHR ''{'')]"

text \<open>type safety: \<^verbatim>\<open>\bint\s+\w+\<close>.\<close>

definition rx_int_declaration :: regex where
  "rx_int_declaration = [WordB, Lit ''int'', rx_plus is_space, rx_plus is_word]"

section \<open>\<^verbatim>\<open>tools/static_analysis_integration.py\<close>\<close>

text \<open>
  The exceptions a modelled function can raise are values of \<open>error\<close>; a function that
  can raise returns \<open>error + 'a\<close>, the error on the left.
\<close>

definition bind_err :: "error + 'a \<Rightarrow> ('a \<Rightarrow> error + 'b) \<Rightarrow> error + 'b" where
  "bind_err m f = (case m of Inl e \<Rightarrow> Inl e | Inr x \<Rightarrow> f x)"

text \<open>
  The values \<^verbatim>\<open>json.loads\<close> returns. A Python \<^verbatim>\<open>dict\<close> is the list of its items in
  insertion order (keys distinct); a \<^verbatim>\<open>float\<close> is kept as its literal, nothing below looks
  into it.
\<close>

datatype json =
    JNull
  | JBool bool
  | JInt int
  | JFloat string
  | JString string
  | JArray "json list"
  | JObject "(string \<times> json) list"

record StaticAnalysisResult =
  tool_name :: string
  file_path :: string
  line_number :: json
  severity :: json
  message :: json
  rule_id :: json
  category :: string
  confidence :: real

text \<open>
  The dataclass does not check the types of its fields: the parser of clang-tidy stores
  whatever JSON value the output holds.
\<close>

subsection \<open>Python operations on decoded JSON\<close>

text \<open>\<^verbatim>\<open>for x in v\<close>: a list gives its elements, a dict its keys, a string its characters;
  anything else raises \<^verbatim>\<open>TypeError\<close>.\<close>

definition py_iter :: "json \<Rightarrow> error + json list" where
  "py_iter v =
     (case v of
        JArray xs \<Rightarrow> Inr xs
      | JObject kvs \<Rightarrow> Inr (map (\<lambda>(k, _). JString k) kvs)
      | JString s \<Rightarrow> Inr (map (\<lambda>c. JString [c]) s)
      | _ \<Rightarrow> Inl TypeError)"

text \<open>\<^verbatim>\<open>key in v\<close> for a string \<open>key\<close>: key membership in a dict, substring test in a string,
  element membership in a list; anything else raises \<^verbatim>\<open>TypeError\<close>.\<close>

definition py_contains :: "string \<Rightarrow> json \<Rightarrow> error + bool" where
  "py_contains key v =
     (case v of
        JObject kvs \<Rightarrow> Inr (map_of kvs key \<noteq> None)
      | JString s \<Rightarrow> Inr (py_in key s)
      | JArray xs \<Rightarrow> Inr (List.member xs (JString key))
      | _ \<Rightarrow> Inl TypeError)"

text \<open>\<^verbatim>\<open>v[key]\<close> for a string \<open>key\<close>: only a dict can be indexed by a string.\<close>

definition py_subscript :: "json \<Rightarrow> string \<Rightarrow> error + json" where
  "py_subscript v key =
     (case v of
        JObject kvs \<Rightarrow> (case map_of kvs key of Some x \<Rightarrow> Inr x | None \<Rightarrow> Inl KeyError)
      | _ \<Rightarrow> Inl TypeError)"

text \<open>\<^verbatim>\<open>v.get(key, default)\<close>: only a dict has the method.\<close>

definition json_get :: "json \<Rightarrow> string \<Rightarrow> json \<Rightarrow> error + json" where
  "json_get v key dflt =
     (case v of
        JObject kvs \<Rightarrow> Inr (case map_of kvs key of Some x \<Rightarrow> x | None \<Rightarrow> dflt)
      | _ \<Rightarrow> Inl AttributeError)"

subsection \<open>The clang-tidy parser\<close>

definition clang_tidy_mapping :: "string \<rightharpoonup> string" where
  "clang_tidy_mapping = map_of [
      (''bugprone-assignment-in-if-condition'', ''rule_9''),
      (''bugprone-branch-clone'', ''style_logic''),
      (''bugprone-dangling-handle'', ''rule_5''),
      (''bugprone-dynamic-static-initializers'', ''rule_3''),
      (''bugprone-exception-escape'', ''rule_1''),
      (''bugprone-fold-init-type'', ''style_types''),
      (''bugprone-forward-declaration-namespace'', ''style_includes''),
      (''bugprone-forwarding-reference-overload'', ''style_functions''),
      (''bugprone-inaccurate-erase'', ''style_containers''),
      (''bugprone-infinite-loop'', ''rule_2''),
      (''bugprone-integer-division'', ''style_arithmetic''),
      (''bugprone-lambda-function-name'', ''style_functions''),
      (''bugprone-macro-parentheses'', ''rule_8''),
      (''bugprone-macro-repeated-side-effects'', ''rule_8''),
      (''bugprone-misplaced-operator-new'', ''rule_3''),
      (''bugprone-misplaced-pointer-arithmetic-in-alloc'', ''rule_3''),
      (''bugprone-misplaced-widening-cast'', ''style_types''),
      (''bugprone-move-forwarding-reference'', ''style_functions''),
      (''bugprone-multiple-statement-macro'', ''rule_8''),
      (''bugprone-no-escape'', ''style_security''),
      (''bugprone-not-null-terminated-result'', ''style_strings''),
      (''bugprone-parent-virtual-call'', ''style_inheritance''),
      (''bugprone-posix-return'', ''style_functions''),
      (''bugprone-reserved-identifier'', ''style_naming''),
      (''bugprone-sizeof-container'', ''style_containers''),
      (''bugprone-sizeof-expression'', ''style_types''),
      (''bugprone-spuriously-missing-initialization'', ''rule_6''),
      (''bugprone-string-constructor'', ''style_strings''),
      (''bugprone-string-integer-assignment'', ''style_types''),
      (''bugprone-string-literal-with-embedded-nul'', ''style_strings''),
      (''bugprone-suspicious-enum-usage'', ''style_enums''),
      (''bugprone-suspicious-missing-comma'', ''style_syntax''),
      (''bugprone-suspicious-semicolon'', ''style_syntax''),
      (''bugprone-suspicious-string-compare'', ''style_strings''),
      (''bugprone-swapped-arguments'', ''style_functions''),
      (''bugprone-terminating-continue'', ''rule_1''),
      (''bugprone-throw-keyword-missing'', ''style_exceptions''),
      (''bugprone-too-small-loop-variable'', ''style_types''),
      (''bugprone-undefined-behavior'', ''style_undefined''),
      (''bugprone-undelegated-constructor'', ''style_classes''),
      (''bugprone-unhandled-self-move'', ''style_moves''),
      (''bugprone-unused-raii'', ''style_resources''),
      (''bugprone-unused-return-value'', ''style_functions''),
      (''bugprone-use-after-move'', ''style_moves''),
      (''bugprone-virtual-near-miss'', ''style_inheritance'')]"

text \<open>\<^verbatim>\<open>mapping.get(rule_id, 'style_general')\<close>, \<open>rule\<close> being the argument \<^verbatim>\<open>rule_id\<close>: a list or a dict is unhashable and raises
  \<^verbatim>\<open>TypeError\<close>; any other value that is not a key gives the default.\<close>

definition map_clang_tidy_to_nasa :: "json \<Rightarrow> error + string" where
  "map_clang_tidy_to_nasa rule =
     (case rule of
        JArray _ \<Rightarrow> Inl TypeError
      | JObject _ \<Rightarrow> Inl TypeError
      | JString s \<Rightarrow> Inr (case clang_tidy_mapping s of Some c \<Rightarrow> c | None \<Rightarrow> ''style_general'')
      | _ \<Rightarrow> Inr ''style_general'')"

text \<open>The body of the inner loop: one \<^verbatim>\<open>results.append(...)\<close>.\<close>

definition clang_tidy_diag :: "string \<Rightarrow> json \<Rightarrow> StaticAnalysisResult list \<Rightarrow> error + StaticAnalysisResult list" where
  "clang_tidy_diag path diag results =
     bind_err (json_get diag ''check_name'' (JString [])) (\<lambda>check_name.
     bind_err (map_clang_tidy_to_nasa check_name) (\<lambda>nasa_rule.
     bind_err (json_get diag ''line'' (JInt 0)) (\<lambda>line.
     bind_err (json_get diag ''level'' (JString ''warning'')) (\<lambda>level.
     bind_err (json_get diag ''message'' (JString [])) (\<lambda>msg.
     bind_err (json_get diag ''check_name'' (JString [])) (\<lambda>rid.
       Inr (results @ [\<lparr>tool_name = ''clang-tidy'', file_path = path, line_number = line,
                         severity = level, message = msg, rule_id = rid,
                         category = nasa_rule, confidence = 85 / 100\<rparr>])))))))"

text \<open>The body of the outer loop.\<close>

definition clang_tidy_diagnostic :: "string \<Rightarrow> json \<Rightarrow> StaticAnalysisResult list \<Rightarrow> error + StaticAnalysisResult list" where
  "clang_tidy_diagnostic path diagnostic results =
     bind_err (py_contains ''diagnostics'' diagnostic) (\<lambda>present.
       if present
       then bind_err (py_subscript diagnostic ''diagnostics'') (\<lambda>ds.
            bind_err (py_iter ds) (\<lambda>diags.
              fold_err (clang_tidy_diag path) diags results))
       else Inr results)"

text \<open>
  \<^verbatim>\<open>_parse_clang_tidy_json\<close>. \<^verbatim>\<open>json.loads\<close> belongs to the standard library: the decoder
  is the parameter \<open>loads\<close>. Only \<^verbatim>\<open>JSONDecodeError\<close> is caught.
\<close>

definition parse_clang_tidy_json ::
  "(string \<Rightarrow> error + json) \<Rightarrow> string \<Rightarrow> string \<Rightarrow> error + StaticAnalysisResult list" where
  "parse_clang_tidy_json loads json_output path =
     (case loads json_output of
        Inl e \<Rightarrow> (if e = JSONDecodeError then Inr [] else Inl e)
      | Inr data \<Rightarrow>
          bind_err (py_iter data) (\<lambda>diagnostics.
            fold_err (clang_tidy_diagnostic path) diagnostics []))"

subsection \<open>Running the tools\<close>

text \<open>
  What lies outside the program is a parameter: \<open>subprocess_run cmd timeout\<close> is the
  outcome of \<^verbatim>\<open>subprocess.run(cmd, capture_output=True, text=True, timeout=...)\<close>, either a
  completed process with its return code and standard output or an exception;
  \<open>json_loads\<close> is \<^verbatim>\<open>json.loads\<close>. The three parsers built on \<^verbatim>\<open>re.finditer\<close> are
  parameters too: nothing proved below depends on what they return.
\<close>

datatype proc_result = Completed int string | Raised error

record world =
  subprocess_run :: "string list \<Rightarrow> nat \<Rightarrow> proc_result"
  json_loads :: "string \<Rightarrow> error + json"
  parse_cppcheck_xml :: "string \<Rightarrow> string \<Rightarrow> error + StaticAnalysisResult list"
  parse_splint_output :: "string \<Rightarrow> string \<Rightarrow> error + StaticAnalysisResult list"
  parse_flawfinder_html :: "string \<Rightarrow> string \<Rightarrow> error + StaticAnalysisResult list"

datatype tool = cppcheck | clang_tidy | splint | flawfinder

text \<open>What a run does, in order: the processes it launches and the parsers it calls.\<close>

datatype event = Invoke tool "string list" | Parse tool

fun event_tool :: "event \<Rightarrow> tool" where
  "event_tool (Invoke t cmd) = t"
| "event_tool (Parse t) = t"

record integrator =
  config :: json
  tools :: "tool \<Rightarrow> bool"

text \<open>The availability probes: \<^verbatim>\<open>TimeoutExpired\<close> and \<^verbatim>\<open>FileNotFoundError\<close> are caught.\<close>

definition probe :: "world \<Rightarrow> string \<Rightarrow> error + bool" where
  "probe w binary =
     (case subprocess_run w [binary, ''--version''] 5 of
        Completed returncode out \<Rightarrow> Inr (returncode = 0)
      | Raised e \<Rightarrow> if e = TimeoutExpired \<or> e = FileNotFoundError then Inr False else Inl e)"

definition check_cppcheck_available :: "world \<Rightarrow> error + bool" where
  "check_cppcheck_available w = probe w ''cppcheck''"

definition check_clang_tidy_available :: "world \<Rightarrow> error + bool" where
  "check_clang_tidy_available w = probe w ''clang-tidy''"

definition check_splint_available :: "world \<Rightarrow> error + bool" where
  "check_splint_available w = probe w ''splint''"

definition check_flawfinder_available :: "world \<Rightarrow> error + bool" where
  "check_flawfinder_available w = probe w ''flawfinder''"

text \<open>\<^verbatim>\<open>__init__\<close>: the dictionary \<^verbatim>\<open>self.tools\<close> is filled from the four probes.\<close>

definition init_integrator :: "world \<Rightarrow> json \<Rightarrow> error + integrator" where
  "init_integrator w cfg =
     bind_err (check_cppcheck_available w) (\<lambda>a.
     bind_err (check_clang_tidy_available w) (\<lambda>b.
     bind_err (check_splint_available w) (\<lambda>c.
     bind_err (check_flawfinder_available w) (\<lambda>d.
       Inr \<lparr>config = cfg,
            tools = (\<lambda>t. case t of cppcheck \<Rightarrow> a | clang_tidy \<Rightarrow> b
                                  | splint \<Rightarrow> c | flawfinder \<Rightarrow> d)\<rparr>))))"

text \<open>
  The four \<^verbatim>\<open>run_...\<close> methods have one shape: return the empty list when the tool is
  unavailable; otherwise launch the command with a timeout of 60 seconds, parse the output
  when the return code is accepted, and turn every exception into the empty list. They
  differ in the command, the accepted return codes and the parser. Each takes the trace so
  far and returns the results with the extended trace.
\<close>

definition run_tool ::
  "world \<Rightarrow> integrator \<Rightarrow> tool \<Rightarrow> string list \<Rightarrow> (int \<Rightarrow> bool) \<Rightarrow> (string \<Rightarrow> error + StaticAnalysisResult list)
     \<Rightarrow> event list \<Rightarrow> StaticAnalysisResult list \<times> event list" where
  "run_tool w self t cmd accepted parse trace =
     (if \<not> tools self t then ([], trace)
      else case subprocess_run w cmd 60 of
             Raised e \<Rightarrow> ([], trace @ [Invoke t cmd])
           | Completed returncode out \<Rightarrow>
               if accepted returncode
               then (case parse out of
                       Inl e \<Rightarrow> ([], trace @ [Invoke t cmd, Parse t])
                     | Inr results \<Rightarrow> (results, trace @ [Invoke t cmd, Parse t]))
               else ([], trace @ [Invoke t cmd]))"

definition run_cppcheck ::
  "world \<Rightarrow> integrator \<Rightarrow> string \<Rightarrow> event list \<Rightarrow> StaticAnalysisResult list \<times> event list" where
  "run_cppcheck w self path =
     run_tool w self cppcheck
       [''cppcheck'', ''--enable=all'', ''--xml'', ''--xml-version=2'',
        ''--suppress=missingIncludeSystem'', ''--suppress=unusedFunction'', path]
       (\<lambda>returncode. returncode = 0 \<or> returncode = 1)
       (\<lambda>out. parse_cppcheck_xml w out path)"

definition run_clang_tidy ::
  "world \<Rightarrow> integrator \<Rightarrow> string \<Rightarrow> event list \<Rightarrow> StaticAnalysisResult list \<times> event list" where
  "run_clang_tidy w self path =
     run_tool w self clang_tidy
       [''clang-tidy'', ''--checks=*'', ''--warnings-as-errors=*'', ''--format-style=json'', path]
       (\<lambda>returncode. returncode = 0 \<or> returncode = 1)
       (\<lambda>out. parse_clang_tidy_json (json_loads w) out path)"

definition run_splint ::
  "world \<Rightarrow> integrator \<Rightarrow> string \<Rightarrow> event list \<Rightarrow> StaticAnalysisResult list \<times> event list" where
  "run_splint w self path =
     run_tool w self splint
       [''splint'', ''+all'', ''+bounds'', ''+strict'', ''+unrecog'', path]
       (\<lambda>returncode. returncode = 0 \<or> returncode = 1)
       (\<lambda>out. parse_splint_output w out path)"

definition run_flawfinder ::
  "world \<Rightarrow> integrator \<Rightarrow> string \<Rightarrow> event list \<Rightarrow> StaticAnalysisResult list \<times> event list" where
  "run_flawfinder w self path =
     run_tool w self flawfinder
       [''flawfinder'', ''--html'', ''--context'', ''--minlevel'', ''1'', path]
       (\<lambda>returncode. returncode = 0)
       (\<lambda>out. parse_flawfinder_html w out path)"

text \<open>
  \<^verbatim>\<open>run_all_tools\<close>: a tool gets an entry in the dictionary only when its probe said
  it was available.
\<close>

definition run_all_tools ::
  "world \<Rightarrow> integrator \<Rightarrow> string \<Rightarrow> (tool \<rightharpoonup> StaticAnalysisResult list) \<times> event list" where
  "run_all_tools w self path =
     (let results = Map.empty; trace = [];
          (results, trace) =
             (if tools self cppcheck
              then (case run_cppcheck w self path trace of
                      (r, trace) \<Rightarrow> (results(cppcheck \<mapsto> r), trace))
              else (results, trace));
          (results, trace) =
             (if tools self clang_tidy
              then (case run_clang_tidy w self path trace of
                      (r, trace) \<Rightarrow> (results(clang_tidy \<mapsto> r), trace))
              else (results, trace));
          (results, trace) =
             (if tools self splint
              then (case run_splint w self path trace of
                      (r, trace) \<Rightarrow> (results(splint \<mapsto> r), trace))
              else (results, trace));
          (results, trace) =
             (if tools self flawfinder
              then (case run_flawfinder w self path trace of
                      (r, trace) \<Rightarrow> (results(flawfinder \<mapsto> r), trace))
              else (results, trace))
      in (results, trace))"

section \<open>Data model of \<^verbatim>\<open>tools/compliance_checker.py\<close>\<close>

datatype Severity = MINOR | MODERATE | MAJOR | CRITICAL

record Violation =
  rule_id :: string
  rule_name :: string
  description :: string
  severity :: Severity
  line_number :: int
  suggestion :: string
  code_snippet :: string

text \<open>The instance state of \<^verbatim>\<open>NASAComplianceChecker\<close>.\<close>

record checker =
  violations :: "Violation list"
  code_lines :: "string list"

definition init_checker :: checker where
  "init_checker = \<lparr>violations = [], code_lines = []\<rparr>"

definition load_code :: "checker \<Rightarrow> string \<Rightarrow> checker" where
  "load_code self code = self\<lparr>code_lines := split (CHR 0x0A) code, violations := []\<rparr>"

text \<open>\<^verbatim>\<open>self.violations.append(v)\<close>.\<close>

definition append_violation :: "checker \<Rightarrow> Violation \<Rightarrow> checker" where
  "append_violation self v = self\<lparr>violations := violations self @ [v]\<rparr>"

section \<open>The intrinsic rules\<close>

text \<open>
  Each \<^verbatim>\<open>_check_...\<close> method is a loop over \<^verbatim>\<open>enumerate(self.code_lines, 1)\<close> that appends
  to \<^verbatim>\<open>self.violations\<close>: a fold of the loop body over the numbered lines, the checker
  (and the loop's local variables, where it has some) being the state. Methods that index
  \<^verbatim>\<open>self.code_lines\<close> return \<open>error + checker\<close>. The leading underscore of the
  method names is dropped.
\<close>

subsection \<open>Rule 1\<close>

text \<open>The inner loop over \<^verbatim>\<open>self.code_lines[i:]\<close>, left at the first hit.\<close>

fun rule_1_scan :: "string \<Rightarrow> Violation \<Rightarrow> string list \<Rightarrow> checker \<Rightarrow> checker" where
  "rule_1_scan func_name v [] self = self"
| "rule_1_scan func_name v (check_line # rest) self =
     (if py_in (func_name @ ''('') check_line \<and> \<not> startswith (strip check_line) ''//''
      then append_violation self v
      else rule_1_scan func_name v rest self)"

definition rule_1_line :: "int \<times> string \<Rightarrow> checker \<Rightarrow> checker" where
  "rule_1_line = (\<lambda>(i, line) self.
     let self = (if py_in ''goto'' line \<and> \<not> startswith (strip line) ''//''
                 then append_violation self
                        \<lparr>rule_id = ''rule_1'', rule_name = ''Avoid Complex Flow Control'',
                         description = ''Use of goto statement detected'',
                         severity = CRITICAL, line_number = i,
                         suggestion = ''Replace goto with structured control flow'',
                         code_snippet = strip line\<rparr>
                 else self);
         self = (if (py_in ''setjmp'' line \<or> py_in ''longjmp'' line)
                    \<and> \<not> startswith (strip line) ''//''
                 then append_violation self
                        \<lparr>rule_id = ''rule_1'', rule_name = ''Avoid Complex Flow Control'',
                         description = ''Use of setjmp/longjmp detected'',
                         severity = CRITICAL, line_number = i,
                         suggestion = ''Use structured error handling instead'',
                         code_snippet = strip line\<rparr>
                 else self)
     in case re_search rx_call_brace line of
          None \<Rightarrow> self
        | Some g \<Rightarrow>
            let func_name = g ! 0
            in rule_1_scan func_name
                 \<lparr>rule_id = ''rule_1'', rule_name = ''Avoid Complex Flow Control'',
                  description = ''Recursive function call detected'',
                  severity = CRITICAL, line_number = i,
                  suggestion = ''Use iterative approach instead of recursion'',
                  code_snippet = strip line\<rparr>
                 (drop (nat i) (code_lines self)) self)"

definition check_rule_1_flow_control :: "checker \<Rightarrow> checker" where
  "check_rule_1_flow_control self = fold rule_1_line (enumerate1 (code_lines self)) self"

subsection \<open>Rule 2\<close>

definition rule_2_line :: "int \<times> string \<Rightarrow> checker \<Rightarrow> checker" where
  "rule_2_line = (\<lambda>(i, line) self.
     let self = (if matched (re_match rx_while_paren line)
                 then (if \<not> list_ex (\<lambda>pattern. py_in pattern line)
                                      [''MAX_'', ''count'', ''size'', ''length'']
                       then append_violation self
                              \<lparr>rule_id = ''rule_2'', rule_name = ''Fixed Loop Bounds'',
                               description = ''Loop without clear upper bound detected'',
                               severity = MAJOR, line_number = i,
                               suggestion = ''Add compile-time determinable upper bound'',
                               code_snippet = strip line\<rparr>
                       else self)
                 else self)
     in if py_in ''while'' line
           \<and> list_ex (\<lambda>pattern. py_in pattern line) [''true'', ''1'', ''!0'']
        then append_violation self
               \<lparr>rule_id = ''rule_2'', rule_name = ''Fixed Loop Bounds'',
                description = ''Potential infinite loop detected'',
                severity = MAJOR, line_number = i,
                suggestion = ''Add explicit loop counter and bounds checking'',
                code_snippet = strip line\<rparr>
        else self)"

definition check_rule_2_loop_bounds :: "checker \<Rightarrow> checker" where
  "check_rule_2_loop_bounds self = fold rule_2_line (enumerate1 (code_lines self)) self"

subsection \<open>Rules 3, 4 and 5\<close>

definition rule_3_line :: "int \<times> string \<Rightarrow> checker \<Rightarrow> checker" where
  "rule_3_line = (\<lambda>(i, line) self.
     if list_ex (\<lambda>func. py_in func line) [''malloc'', ''calloc'', ''realloc'', ''free'']
     then (if \<not> startswith (strip line) ''//''
           then append_violation self
                  \<lparr>rule_id = ''rule_3'', rule_name = ''No Dynamic Memory'',
                   description = ''Dynamic memory allocation detected'',
                   severity = CRITICAL, line_number = i,
                   suggestion = ''Use static allocation or stack-based allocation'',
                   code_snippet = strip line\<rparr>
           else self)
     else self)"

definition check_rule_3_dynamic_memory :: "checker \<Rightarrow> checker" where
  "check_rule_3_dynamic_memory self = fold rule_3_line (enumerate1 (code_lines self)) self"

definition rule_4_line :: "int \<times> string \<Rightarrow> checker \<Rightarrow> checker" where
  "rule_4_line = (\<lambda>(i, line) self.
     case re_search rx_signature line of
       None \<Rightarrow> self
     | Some func_match \<Rightarrow>
         let params = func_match ! 5;
             param_count = int (length (filter (\<lambda>p. strip p \<noteq> [])
                                                (split (CHR '','') params)))
         in if param_count > 2
            then append_violation self
                   \<lparr>rule_id = ''rule_4'', rule_name = ''Function Parameters'',
                    description = ''Function with '' @ str_int param_count @ '' parameters detected'',
                    severity = MAJOR, line_number = i,
                    suggestion = ''Use structure to group related parameters'',
                    code_snippet = strip line\<rparr>
            else self)"

definition check_rule_4_function_parameters :: "checker \<Rightarrow> checker" where
  "check_rule_4_function_parameters self = fold rule_4_line (enumerate1 (code_lines self)) self"

definition rule_5_line :: "int \<times> string \<Rightarrow> checker \<Rightarrow> checker" where
  "rule_5_line = (\<lambda>(i, line) self.
     if py_in ''***'' line
     then append_violation self
            \<lparr>rule_id = ''rule_5'', rule_name = ''Pointer Dereferencing'',
             description = ''More than 2 levels of pointer indirection detected'',
             severity = MAJOR, line_number = i,
             suggestion = ''Limit pointer indirection to 2 levels maximum'',
             code_snippet = strip line\<rparr>
     else self)"

definition check_rule_5_pointer_dereferencing :: "checker \<Rightarrow> checker" where
  "check_rule_5_pointer_dereferencing self = fold rule_5_line (enumerate1 (code_lines self)) self"

subsection \<open>Rules 6 and 7\<close>

text \<open>
  The loop state of rule 6 is \<open>(in_function, function_start, self)\<close>; the first branch is the
  \<^verbatim>\<open>continue\<close> of the source.
\<close>

definition rule_6_line :: "int \<times> string \<Rightarrow> bool \<times> int \<times> checker \<Rightarrow> bool \<times> int \<times> checker" where
  "rule_6_line = (\<lambda>(i, line) (in_function, function_start, self).
     if matched (re_match rx_function_start line) then (True, i, self)
     else
       let self = (if in_function \<and> matched (re_match rx_declaration line)
                   then (if i > function_start + 2
                         then append_violation self
                                \<lparr>rule_id = ''rule_6'', rule_name = ''Variable Declarations'',
                                 description = ''Variable declaration may not be at scope beginning'',
                                 severity = MINOR, line_number = i,
                                 suggestion = ''Move all variable declarations to beginning of scope'',
                                 code_snippet = strip line\<rparr>
                         else self)
                   else self);
           in_function = (if strip line = ''}'' \<and> in_function then False else in_function)
       in (in_function, function_start, self))"

definition check_rule_6_variable_declarations :: "checker \<Rightarrow> checker" where
  "check_rule_6_variable_declarations self =
     snd (snd (fold rule_6_line (enumerate1 (code_lines self)) (False, 0, self)))"

text \<open>The loop state of rule 7 is \<open>(in_function, return_count, function_start, self)\<close>.\<close>

definition rule_7_line ::
  "int \<times> string \<Rightarrow> bool \<times> int \<times> int \<times> checker \<Rightarrow> error + bool \<times> int \<times> int \<times> checker" where
  "rule_7_line = (\<lambda>(i, line) (in_function, return_count, function_start, self).
     if matched (re_match rx_function_start line) then Inr (True, 0, i, self)
     else
       let return_count = (if in_function \<and> py_in ''return'' line
                              \<and> \<not> startswith (strip line) ''//''
                           then return_count + 1 else return_count)
       in if strip line = ''}'' \<and> in_function
          then (if return_count > 1
                then (case py_getitem (code_lines self) (function_start - 1) of
                        Inl e \<Rightarrow> Inl e
                      | Inr start_line \<Rightarrow>
                          Inr (False, return_count, function_start,
                               append_violation self
                                 \<lparr>rule_id = ''rule_7'', rule_name = ''Single Return Point'',
                                  description = ''Function with '' @ str_int return_count @ '' return statements detected'',
                                  severity = MODERATE, line_number = function_start,
                                  suggestion = ''Use single return point with result variable'',
                                  code_snippet = strip start_line\<rparr>))
                else Inr (False, return_count, function_start, self))
          else Inr (in_function, return_count, function_start, self))"

definition check_rule_7_single_return :: "checker \<Rightarrow> error + checker" where
  "check_rule_7_single_return self =
     (case fold_err rule_7_line (enumerate1 (code_lines self)) (False, 0, 0, self) of
        Inl e \<Rightarrow> Inl e
      | Inr (in_function, return_count, function_start, self') \<Rightarrow> Inr self')"

subsection \<open>Rules 8, 9 and 10\<close>

definition rule_8_line :: "int \<times> string \<Rightarrow> checker \<Rightarrow> checker" where
  "rule_8_line = (\<lambda>(i, line) self.
     if startswith (strip line) ''#'' \<and> \<not> startswith (strip line) ''#include''
     then append_violation self
            \<lparr>rule_id = ''rule_8'', rule_name = ''Preprocessor Usage'',
             description = ''Preprocessor directive other than #include detected'',
             severity = MINOR, line_number = i,
             suggestion = ''Use const declarations instead of #define'',
             code_snippet = strip line\<rparr>
     else self)"

definition check_rule_8_preprocessor :: "checker \<Rightarrow> checker" where
  "check_rule_8_preprocessor self = fold rule_8_line (enumerate1 (code_lines self)) self"

definition rule_9_line :: "int \<times> string \<Rightarrow> checker \<Rightarrow> checker" where
  "rule_9_line = (\<lambda>(i, line) self.
     if matched (re_search rx_assign_in_condition line)
     then append_violation self
            \<lparr>rule_id = ''rule_9'', rule_name = ''Assignment in Expressions'',
             description = ''Assignment in conditional expression detected'',
             severity = MODERATE, line_number = i,
             suggestion = ''Separate assignment from condition checking'',
             code_snippet = strip line\<rparr>
     else self)"

definition check_rule_9_assignment_expressions :: "checker \<Rightarrow> checker" where
  "check_rule_9_assignment_expressions self = fold rule_9_line (enumerate1 (code_lines self)) self"

definition rule_10_line :: "int \<times> string \<Rightarrow> checker \<Rightarrow> checker" where
  "rule_10_line = (\<lambda>(i, line) self.
     if py_count line (CHR ''='') > 1 \<and> \<not> py_in ''=='' line
     then append_violation self
            \<lparr>rule_id = ''rule_10'', rule_name = ''Multiple Assignments'',
             description = ''Multiple assignments in single statement detected'',
             severity = MINOR, line_number = i,
             suggestion = ''Use separate assignment statements'',
             code_snippet = strip line\<rparr>
     else self)"

definition check_rule_10_multiple_assignments :: "checker \<Rightarrow> checker" where
  "check_rule_10_multiple_assignments self = fold rule_10_line (enumerate1 (code_lines self)) self"

subsection \<open>Style rules\<close>

definition naming_line :: "int \<times> string \<Rightarrow> checker \<Rightarrow> checker" where
  "naming_line = (\<lambda>(i, line) self.
     case re_search rx_short_name line of
       None \<Rightarrow> self
     | Some var_match \<Rightarrow>
         let var_name = var_match ! 3
         in if int (length var_name) < 3
            then append_violation self
                   \<lparr>rule_id = ''style_naming'', rule_name = ''Naming Conventions'',
                    description = ''Variable name '' @ [CHR 0x27] @ var_name @ [CHR 0x27] @ '' is too short'',
                    severity = MINOR, line_number = i,
                    suggestion = ''Use descriptive variable names'',
                    code_snippet = strip line\<rparr>
            else self)"

definition check_naming_conventions :: "checker \<Rightarrow> checker" where
  "check_naming_conventions self = fold naming_line (enumerate1 (code_lines self)) self"

text \<open>The loop state is \<open>(in_function, function_start, line_count, self)\<close>.\<close>

definition function_length_line ::
  "int \<times> string \<Rightarrow> bool \<times> int \<times> int \<times> checker \<Rightarrow> error + bool \<times> int \<times> int \<times> checker" where
  "function_length_line = (\<lambda>(i, line) (in_function, function_start, line_count, self).
     if matched (re_match rx_function_start line) then Inr (True, i, 0, self)
     else
       let line_count = (if in_function then line_count + 1 else line_count)
       in if strip line = ''}'' \<and> in_function
          then (if line_count > 50
                then (case py_getitem (code_lines self) (function_start - 1) of
                        Inl e \<Rightarrow> Inl e
                      | Inr start_line \<Rightarrow>
                          Inr (False, function_start, line_count,
                               append_violation self
                                 \<lparr>rule_id = ''style_function_length'', rule_name = ''Function Length'',
                                  description = ''Function is '' @ str_int line_count @ '' lines long (exceeds 50 line limit)'',
                                  severity = MODERATE, line_number = function_start,
                                  suggestion = ''Break function into smaller functions'',
                                  code_snippet = strip start_line\<rparr>))
                else Inr (False, function_start, line_count, self))
          else Inr (in_function, function_start, line_count, self))"

definition check_function_length :: "checker \<Rightarrow> error + checker" where
  "check_function_length self =
     (case fold_err function_length_line (enumerate1 (code_lines self)) (False, 0, 0, self) of
        Inl e \<Rightarrow> Inl e
      | Inr (in_function, function_start, line_count, self') \<Rightarrow> Inr self')"

text \<open>
  The loop \<^verbatim>\<open>for j in range(max(0, i-3), i)\<close> of the comment check, left at the first
  comment line; the result is \<^verbatim>\<open>has_comment\<close>.
\<close>

fun comment_scan :: "string list \<Rightarrow> int list \<Rightarrow> error + bool" where
  "comment_scan lines [] = Inr False"
| "comment_scan lines (j # js) =
     (case py_getitem lines j of
        Inl e \<Rightarrow> Inl e
      | Inr l \<Rightarrow>
          if startswith (strip l) ''//'' \<or> startswith (strip l) ''/*'' then Inr True
          else comment_scan lines js)"

definition comment_coverage_line :: "int \<times> string \<Rightarrow> checker \<Rightarrow> error + checker" where
  "comment_coverage_line = (\<lambda>(i, line) self.
     if matched (re_match rx_signature line)
     then (case comment_scan (code_lines self) [max 0 (i - 3)..i - 1] of
             Inl e \<Rightarrow> Inl e
           | Inr has_comment \<Rightarrow>
               if \<not> has_comment
               then Inr (append_violation self
                           \<lparr>rule_id = ''style_comments'', rule_name = ''Comment Coverage'',
                            description = ''Function without header comment detected'',
                            severity = MINOR, line_number = i,
                            suggestion = ''Add function header comment explaining purpose and parameters'',
                            code_snippet = strip line\<rparr>)
               else Inr self)
     else Inr self)"

definition check_comment_coverage :: "checker \<Rightarrow> error + checker" where
  "check_comment_coverage self = fold_err comment_coverage_line (enumerate1 (code_lines self)) self"

text \<open>
  The loop \<^verbatim>\<open>for j in range(i, min(i+20, len(self.code_lines)))\<close> of the error-handling
  check; the result is \<^verbatim>\<open>has_error_handling\<close>.
\<close>

fun error_handling_scan :: "string list \<Rightarrow> int list \<Rightarrow> error + bool" where
  "error_handling_scan lines [] = Inr False"
| "error_handling_scan lines (j # js) =
     (case py_getitem lines j of
        Inl e \<Rightarrow> Inl e
      | Inr l \<Rightarrow>
          if py_in ''error'' (lower l) \<or> py_in ''return'' l then Inr True
          else error_handling_scan lines js)"

definition error_handling_line :: "int \<times> string \<Rightarrow> checker \<Rightarrow> error + checker" where
  "error_handling_line = (\<lambda>(i, line) self.
     if matched (re_match rx_void_function line)
     then (case error_handling_scan (code_lines self)
                  [i..min (i + 20) (int (length (code_lines self))) - 1] of
             Inl e \<Rightarrow> Inl e
           | Inr has_error_handling \<Rightarrow>
               if \<not> has_error_handling
               then Inr (append_violation self
                           \<lparr>rule_id = ''style_error_handling'', rule_name = ''Error Handling'',
                            description = ''Void function without apparent error handling'',
                            severity = MINOR, line_number = i,
                            suggestion = ''Consider returning error codes or implementing error handling'',
                            code_snippet = strip line\<rparr>)
               else Inr self)
     else Inr self)"

definition check_error_handling :: "checker \<Rightarrow> error + checker" where
  "check_error_handling self = fold_err error_handling_line (enumerate1 (code_lines self)) self"

definition type_safety_line :: "int \<times> string \<Rightarrow> checker \<Rightarrow> checker" where
  "type_safety_line = (\<lambda>(i, line) self.
     if matched (re_search rx_int_declaration line)
        \<and> \<not> py_in ''stdint.h'' (join [CHR 0x0A] (take (nat i) (code_lines self)))
     then append_violation self
            \<lparr>rule_id = ''style_type_safety'', rule_name = ''Type Safety'',
             description = ''Use of implicit integer type '' @ [CHR 0x27] @ ''int'' @ [CHR 0x27],
             severity = MINOR, line_number = i,
             suggestion = ''Use explicit integer types from stdint.h'',
             code_snippet = strip line\<rparr>
     else self)"

definition check_type_safety :: "checker \<Rightarrow> checker" where
  "check_type_safety self = fold type_safety_line (enumerate1 (code_lines self)) self"

subsection \<open>\<^verbatim>\<open>check_all_rules\<close>\<close>

text \<open>The list returned is \<open>violations\<close> of the resulting checker.\<close>

definition check_all_rules :: "checker \<Rightarrow> error + checker" where
  "check_all_rules self0 =
     (let self = self0\<lparr>violations := []\<rparr>;
          self = check_rule_1_flow_control self;
          self = check_rule_2_loop_bounds self;
          self = check_rule_3_dynamic_memory self;
          self = check_rule_4_function_parameters self;
          self = check_rule_5_pointer_dereferencing self;
          self = check_rule_6_variable_declarations self
      in case check_rule_7_single_return self of
           Inl e \<Rightarrow> Inl e
         | Inr self \<Rightarrow>
             let self = check_rule_8_preprocessor self;
                 self = check_rule_9_assignment_expressions self;
                 self = check_rule_10_multiple_assignments self;
                 self = check_naming_conventions self
             in case check_function_length self of
                  Inl e \<Rightarrow> Inl e
                | Inr self \<Rightarrow>
                    (case check_comment_coverage self of
                       Inl e \<Rightarrow> Inl e
                     | Inr self \<Rightarrow>
                         (case check_error_handling self of
                            Inl e \<Rightarrow> Inl e
                          | Inr self \<Rightarrow> Inr (check_type_safety self))))"

section \<open>Scoring and classification\<close>

text \<open>\<^verbatim>\<open>d.get(k, default)\<close> on a dictionary.\<close>

definition dict_get :: "('k \<rightharpoonup> 'v) \<Rightarrow> 'k \<Rightarrow> 'v \<Rightarrow> 'v" where
  "dict_get d k dflt = (case d k of Some v \<Rightarrow> v | None \<Rightarrow> dflt)"

definition severity_penalties :: "Severity \<rightharpoonup> int" where
  "severity_penalties = [MINOR \<mapsto> 2, MODERATE \<mapsto> 5, MAJOR \<mapsto> 10, CRITICAL \<mapsto> 15]"

text \<open>
  \<^verbatim>\<open>calculate_compliance_score\<close>: 100 for an empty list; otherwise the loop
  \<^verbatim>\<open>base_score -= severity_penalties.get(violation.severity, 5)\<close> from 100, clamped below at 0.
\<close>

definition calculate_compliance_score :: "checker \<Rightarrow> int" where
  "calculate_compliance_score self =
     (if violations self = [] then 100
      else let base_score =
             fold (\<lambda>violation base_score.
                     base_score - dict_get severity_penalties (severity violation) 5)
                  (violations self) 100
           in max 0 base_score)"

definition get_compliance_level :: "checker \<Rightarrow> string" where
  "get_compliance_level self =
     (let score = calculate_compliance_score self in
      if score \<ge> 90 then ''fully_compliant''
      else if score \<ge> 80 then ''minor_issues''
      else if score \<ge> 70 then ''moderate_issues''
      else if score \<ge> 60 then ''major_issues''
      else ''non_compliant'')"

section \<open>What one pass of a loop body appends\<close>

text \<open>
  The bodies of the loops of rules 2 and 10 only append to \<^verbatim>\<open>self.violations\<close>; these are
  the lists they append for line \<open>i\<close>, in the order of the source.
\<close>

definition rule_2_found :: "int \<times> string \<Rightarrow> Violation list" where
  "rule_2_found = (\<lambda>(i, line).
     (if matched (re_match rx_while_paren line)
         \<and> \<not> list_ex (\<lambda>pattern. py_in pattern line) [''MAX_'', ''count'', ''size'', ''length'']
      then [\<lparr>rule_id = ''rule_2'', rule_name = ''Fixed Loop Bounds'',
              description = ''Loop without clear upper bound detected'',
              severity = MAJOR, line_number = i,
              suggestion = ''Add compile-time determinable upper bound'',
              code_snippet = strip line\<rparr>]
      else []) @
     (if py_in ''while'' line \<and> list_ex (\<lambda>pattern. py_in pattern line) [''true'', ''1'', ''!0'']
      then [\<lparr>rule_id = ''rule_2'', rule_name = ''Fixed Loop Bounds'',
              description = ''Potential infinite loop detected'',
              severity = MAJOR, line_number = i,
              suggestion = ''Add explicit loop counter and bounds checking'',
              code_snippet = strip line\<rparr>]
      else []))"

definition rule_10_found :: "int \<times> string \<Rightarrow> Violation list" where
  "rule_10_found = (\<lambda>(i, line).
     if py_count line (CHR ''='') > 1 \<and> \<not> py_in ''=='' line
     then [\<lparr>rule_id = ''rule_10'', rule_name = ''Multiple Assignments'',
             description = ''Multiple assignments in single statement detected'',
             severity = MINOR, line_number = i,
             suggestion = ''Use separate assignment statements'',
             code_snippet = strip line\<rparr>]
     else [])"

section \<open>Sample violations\<close>

definition goto_violation :: Violation where
  "goto_violation = \<lparr>rule_id = ''rule_1'', rule_name = ''Avoid Complex Flow Control'',
      description = ''Use of goto statement detected'', severity = CRITICAL, line_number = 1,
      suggestion = ''Replace goto with structured control flow'', code_snippet = ''goto end;''\<rparr>"

definition pointer_violation :: Violation where
  "pointer_violation = \<lparr>rule_id = ''rule_5'', rule_name = ''Pointer Dereferencing'',
      description = ''More than 2 levels of pointer indirection detected'', severity = MAJOR,
      line_number = 2, suggestion = ''Limit pointer indirection to 2 levels maximum'',
      code_snippet = ''int ***p;''\<rparr>"

text \<open>
  The sample that \<^verbatim>\<open>test_compliant_code\<close> of \<^verbatim>\<open>tools/test_compliance_system.py\<close> loads and
  for which it expects no violation.
\<close>

definition compliant_code :: string where
  "compliant_code = ''\<newline>#include <stdint.h>\<newline>\<newline>int main(void) {\<newline>    uint16_t counter;\<newline>    uint16_t result;\<newline>    \<newline>    counter = 0;\<newline>    result = 0;\<newline>    \<newline>    while (counter < 10) {\<newline>        result += counter;\<newline>        counter++;\<newline>    }\<newline>    \<newline>    return (int)result;\<newline>}\<newline>''"

section \<open>Properties of scoring\<close>

lemma penalty_lookup:
  "dict_get severity_penalties s 5 =
     (case s of MINOR \<Rightarrow> 2 | MODERATE \<Rightarrow> 5 | MAJOR \<Rightarrow> 10 | CRITICAL \<Rightarrow> 15)"
  by (cases s) (simp_all add: dict_get_def severity_penalties_def)

lemma penalty_loop:
  "fold (\<lambda>violation base_score.
           base_score - dict_get severity_penalties (severity violation) 5) vs b
   = b - (\<Sum>v\<leftarrow>vs. dict_get severity_penalties (severity v) 5)"
  by (induction vs arbitrary: b) simp_all

lemma penalty_nonneg: "0 \<le> dict_get severity_penalties s 5"
  by (cases s) (simp_all add: dict_get_def severity_penalties_def)

lemma penalty_sum_nonneg:
  "0 \<le> (\<Sum>v\<leftarrow>vs. dict_get severity_penalties (severity v) 5)"
  by (induction vs) (simp_all add: penalty_nonneg)

lemma score_closed_form:
  "calculate_compliance_score self
   = max 0 (100 - (\<Sum>v\<leftarrow>violations self. dict_get severity_penalties (severity v) 5))"
  by (simp add: calculate_compliance_score_def penalty_loop Let_def)

text \<open>
  C1. The score is \<open>max(0, 100 - \<Sum> penalty(severity))\<close> over the violation list, with the
  penalties minor 2, moderate 5, major 10, critical 15, and it lies between 0 and 100.
\<close>

theorem C1_score_formula:
  "calculate_compliance_score self
     = max 0 (100 - (\<Sum>v\<leftarrow>violations self.
                       case severity v of MINOR \<Rightarrow> 2 | MODERATE \<Rightarrow> 5
                                        | MAJOR \<Rightarrow> 10 | CRITICAL \<Rightarrow> 15))
   \<and> 0 \<le> calculate_compliance_score self
   \<and> calculate_compliance_score self \<le> 100"
proof -
  have "calculate_compliance_score self
        = max 0 (100 - (\<Sum>v\<leftarrow>violations self. dict_get severity_penalties (severity v) 5))"
    by (rule score_closed_form)
  moreover have "0 \<le> (\<Sum>v\<leftarrow>violations self. dict_get severity_penalties (severity v) 5)"
    by (rule penalty_sum_nonneg)
  ultimately show ?thesis
    by (simp add: penalty_lookup)
qed

lemma penalty_sum_mset:
  "(\<Sum>v\<leftarrow>vs. dict_get severity_penalties (severity v) 5)
   = sum_mset (image_mset (\<lambda>s. dict_get severity_penalties s 5) (mset (map severity vs)))"
  by (induction vs) simp_all

lemma level_from_score:
  "calculate_compliance_score a = calculate_compliance_score b
   \<Longrightarrow> get_compliance_level a = get_compliance_level b"
  by (simp add: get_compliance_level_def)

text \<open>
  C8. Score and level depend only on the multiset of the severities: two violation lists
  with the same severities up to order, in particular a list and a permutation of it,
  get the same score and the same level. Neither function has a failing branch: the
  penalty lookup has a default.
\<close>

theorem C8_order_independent:
  assumes "mset (map severity (violations a)) = mset (map severity (violations b))"
  shows "calculate_compliance_score a = calculate_compliance_score b
         \<and> get_compliance_level a = get_compliance_level b"
proof -
  have same: "calculate_compliance_score a = calculate_compliance_score b"
    using assms by (simp only: score_closed_form penalty_sum_mset)
  show ?thesis
    by (rule conjI [OF same level_from_score [OF same]])
qed

theorem C8_order_independent_witness:
  "mset (map severity (violations \<lparr>violations = [goto_violation, pointer_violation], code_lines = []\<rparr>))
     = mset (map severity (violations \<lparr>violations = [pointer_violation, goto_violation], code_lines = []\<rparr>))
   \<and> calculate_compliance_score \<lparr>violations = [goto_violation, pointer_violation], code_lines = []\<rparr>
     = calculate_compliance_score \<lparr>violations = [pointer_violation, goto_violation], code_lines = []\<rparr>
   \<and> get_compliance_level \<lparr>violations = [goto_violation, pointer_violation], code_lines = []\<rparr>
     = get_compliance_level \<lparr>violations = [pointer_violation, goto_violation], code_lines = []\<rparr>"
proof -
  have h: "mset (map severity (violations \<lparr>violations = [goto_violation, pointer_violation], code_lines = []\<rparr>))
     = mset (map severity (violations \<lparr>violations = [pointer_violation, goto_violation], code_lines = []\<rparr>))"
    by simp
  show ?thesis
    by (rule conjI [OF h C8_order_independent [OF h]])
qed

section \<open>Loops that only append\<close>

lemma violations_append_violation [simp]:
  "violations (append_violation s v) = violations s @ [v]"
  by (simp add: append_violation_def)

lemma code_lines_append_violation [simp]:
  "code_lines (append_violation s v) = code_lines s"
  by (simp add: append_violation_def)

lemma fold_appends:
  assumes step: "\<And>x s. violations (f x s) = violations s @ g x"
  shows "violations (fold f xs s) = violations s @ concat (map g xs)"
proof (induction xs arbitrary: s)
  case Nil
  show ?case by simp
next
  case (Cons x xs)
  have "violations (fold f (x # xs) s) = violations (f x s) @ concat (map g xs)"
    by (simp add: Cons.IH)
  then show ?case
    by (simp add: step)
qed

lemma length_enumerate1 [simp]: "length (enumerate1 xs) = length xs"
  by (simp add: enumerate1_def del: upt_Suc)

lemma enumerate1_nth: "k < length xs \<Longrightarrow> enumerate1 xs ! k = (int k + 1, xs ! k)"
  by (simp add: enumerate1_def del: upt_Suc)

lemma filter_concat_none:
  "(\<And>y. y \<in> set ys \<Longrightarrow> filter P (g y) = []) \<Longrightarrow> filter P (concat (map g ys)) = []"
  by (induction ys) simp_all

lemma filter_concat_single:
  assumes "k < length ys"
    and "\<And>j. j < length ys \<Longrightarrow> j \<noteq> k \<Longrightarrow> filter P (g (ys ! j)) = []"
  shows "filter P (concat (map g ys)) = filter P (g (ys ! k))"
proof -
  have ys: "ys = take k ys @ ys ! k # drop (Suc k) ys"
    using assms(1) by (simp add: id_take_nth_drop)
  have before: "filter P (concat (map g (take k ys))) = []"
  proof (rule filter_concat_none)
    fix y assume "y \<in> set (take k ys)"
    then obtain j where "j < k" and "y = ys ! j"
      using assms(1) by (auto simp: in_set_conv_nth)
    then show "filter P (g y) = []"
      using assms by simp
  qed
  have after: "filter P (concat (map g (drop (Suc k) ys))) = []"
  proof (rule filter_concat_none)
    fix y assume "y \<in> set (drop (Suc k) ys)"
    then obtain j where "j < length ys - Suc k" and "y = ys ! (Suc k + j)"
      by (auto simp: in_set_conv_nth)
    then show "filter P (g y) = []"
      using assms(2) [of "Suc k + j"] by simp
  qed
  have "filter P (concat (map g ys))
        = filter P (concat (map g (take k ys @ ys ! k # drop (Suc k) ys)))"
    using ys by simp
  also have "\<dots> = filter P (g (ys ! k))"
    using before after by simp
  finally show ?thesis .
qed

lemma filter_line_enumerate1:
  assumes "k < length xs"
    and "\<And>i l. list_all (\<lambda>v. line_number v = i) (g (i, l))"
  shows "filter (\<lambda>v. line_number v = int k + 1) (concat (map g (enumerate1 xs)))
         = g (int k + 1, xs ! k)"
proof -
  have all: "filter (\<lambda>v. line_number v = i) (g (i, l)) = g (i, l)" for i l
    using assms(2) [of i l] by (simp add: list_all_iff)
  have none: "filter (\<lambda>v. line_number v = j) (g (i, l)) = []" if "i \<noteq> j" for i j l
    using assms(2) [of i l] that by (auto simp: list_all_iff filter_empty_conv)
  have "filter (\<lambda>v. line_number v = int k + 1) (concat (map g (enumerate1 xs)))
        = filter (\<lambda>v. line_number v = int k + 1) (g (enumerate1 xs ! k))"
  proof (rule filter_concat_single)
    show "k < length (enumerate1 xs)" using assms(1) by simp
  next
    fix j assume "j < length (enumerate1 xs)" and "j \<noteq> k"
    then show "filter (\<lambda>v. line_number v = int k + 1) (g (enumerate1 xs ! j)) = []"
      by (simp add: enumerate1_nth none)
  qed
  then show ?thesis
    using assms(1) by (simp add: enumerate1_nth all)
qed

section \<open>Rule 2\<close>

lemma rule_2_line_found: "violations (rule_2_line x s) = violations s @ rule_2_found x"
  by (cases x) (simp add: rule_2_line_def rule_2_found_def Let_def)

lemma rule_2_found_lines: "list_all (\<lambda>v. line_number v = i) (rule_2_found (i, l))"
  by (simp add: rule_2_found_def)

lemma check_rule_2_found:
  "violations (check_rule_2_loop_bounds s)
   = violations s @ concat (map rule_2_found (enumerate1 (code_lines s)))"
  unfolding check_rule_2_loop_bounds_def
  by (rule fold_appends) (rule rule_2_line_found)

lemma check_rule_2_at_line:
  assumes "k < length (code_lines s)"
  shows "filter (\<lambda>v. line_number v = int k + 1) (violations (check_rule_2_loop_bounds s))
         = filter (\<lambda>v. line_number v = int k + 1) (violations s)
           @ rule_2_found (int k + 1, code_lines s ! k)"
  using filter_line_enumerate1 [OF assms, of rule_2_found, OF rule_2_found_lines]
  by (simp add: check_rule_2_found)


lemma py_in_sublist: "py_in sub s \<longleftrightarrow> sublist sub s"
  by (induction s) (simp_all add: sublist_Cons_right)

lemma py_in_drop: "prefix p (drop k s) \<Longrightarrow> py_in p s"
proof -
  assume "prefix p (drop k s)"
  then obtain ss where "drop k s = p @ ss"
    by (auto simp: prefix_def)
  then have "s = take k s @ p @ ss"
    by (metis append_take_drop_id)
  then show ?thesis
    unfolding py_in_sublist sublist_def by blast
qed

lemma first_some_SomeD: "first_some xs = Some y \<Longrightarrow> Some y \<in> set xs"
  by (induction xs rule: first_some.induct) auto

lemma rx_at_Rep_SomeD:
  assumes "rx_at (Rep p lo hi # r) prev s = Some g"
  shows "\<exists>k g'. rx_at r (last_char prev (take k s)) (drop k s) = Some g'"
proof -
  define ks where
    "ks = rev [lo..<Suc (case hi of None \<Rightarrow> length (takeWhile p s)
                          | Some h \<Rightarrow> min (length (takeWhile p s)) h)]"
  define f where
    "f = (\<lambda>k. map_option ((#) (take k s)) (rx_at r (last_char prev (take k s)) (drop k s)))"
  from assms have "first_some (map f ks) = Some g"
    by (simp only: rx_at.simps Let_def ks_def f_def)
  then have "Some g \<in> set (map f ks)"
    by (rule first_some_SomeD)
  then obtain k where "f k = Some g"
    by auto
  then show ?thesis
    unfolding f_def by (cases "rx_at r (last_char prev (take k s)) (drop k s)") auto
qed

lemma rx_at_Lit_SomeD: "rx_at (Lit l # r) prev s = Some g \<Longrightarrow> prefix l s"
  by (simp split: if_splits)

lemma while_paren_contains_while:
  assumes "matched (re_match rx_while_paren line)"
  shows "py_in ''while'' line"
proof -
  from assms obtain g where
    "rx_at (rx_star is_space # [Lit ''while'', rx_star is_space, Lit ''('']) None line = Some g"
    by (auto simp: matched_def re_match_def rx_while_paren_def simp del: rx_at.simps)
  then obtain k g' where
    "rx_at (Lit ''while'' # [rx_star is_space, Lit ''(''])
       (last_char None (take k line)) (drop k line) = Some g'"
    using rx_at_Rep_SomeD by blast
  then have "prefix ''while'' (drop k line)"
    by (rule rx_at_Lit_SomeD)
  then show ?thesis
    by (rule py_in_drop)
qed

text \<open>
  C9. A line that matches \<^verbatim>\<open>\s*while\s*\(\<close>, contains none of \<^verbatim>\<open>MAX_\<close>, \<^verbatim>\<open>count\<close>,
  \<^verbatim>\<open>size\<close>, \<^verbatim>\<open>length\<close> and contains \<^verbatim>\<open>true\<close>, \<^verbatim>\<open>1\<close> or \<^verbatim>\<open>!0\<close> anywhere gets exactly two
  rule 2 violations from \<^verbatim>\<open>_check_rule_2_loop_bounds\<close>, the unbounded-loop one and then the
  infinite-loop one; for line \<open>k + 1\<close> of the source, the violations with that line number
  after the call are those before it followed by these two.
\<close>

theorem C9_two_violations:
  assumes "k < length (code_lines self)"
    and "matched (re_match rx_while_paren (code_lines self ! k))"
    and "\<not> py_in ''MAX_'' (code_lines self ! k)"
    and "\<not> py_in ''count'' (code_lines self ! k)"
    and "\<not> py_in ''size'' (code_lines self ! k)"
    and "\<not> py_in ''length'' (code_lines self ! k)"
    and "py_in ''true'' (code_lines self ! k) \<or> py_in ''1'' (code_lines self ! k)
         \<or> py_in ''!0'' (code_lines self ! k)"
  shows "filter (\<lambda>v. line_number v = int k + 1) (violations (check_rule_2_loop_bounds self))
         = filter (\<lambda>v. line_number v = int k + 1) (violations self)
           @ [\<lparr>rule_id = ''rule_2'', rule_name = ''Fixed Loop Bounds'',
                description = ''Loop without clear upper bound detected'',
                severity = MAJOR, line_number = int k + 1,
                suggestion = ''Add compile-time determinable upper bound'',
                code_snippet = strip (code_lines self ! k)\<rparr>,
               \<lparr>rule_id = ''rule_2'', rule_name = ''Fixed Loop Bounds'',
                description = ''Potential infinite loop detected'',
                severity = MAJOR, line_number = int k + 1,
                suggestion = ''Add explicit loop counter and bounds checking'',
                code_snippet = strip (code_lines self ! k)\<rparr>]"
proof -
  have w: "py_in ''while'' (code_lines self ! k)"
    using assms(2) by (rule while_paren_contains_while)
  show ?thesis
    using assms w by (simp add: check_rule_2_at_line rule_2_found_def)
qed

theorem C9_two_violations_witness:
  "filter (\<lambda>v. line_number v = 1)
     (violations (check_rule_2_loop_bounds
        \<lparr>violations = [], code_lines = [''while (1) { x++; }'']\<rparr>))
   = [\<lparr>rule_id = ''rule_2'', rule_name = ''Fixed Loop Bounds'',
        description = ''Loop without clear upper bound detected'',
        severity = MAJOR, line_number = 1,
        suggestion = ''Add compile-time determinable upper bound'',
        code_snippet = ''while (1) { x++; }''\<rparr>,
       \<lparr>rule_id = ''rule_2'', rule_name = ''Fixed Loop Bounds'',
        description = ''Potential infinite loop detected'',
        severity = MAJOR, line_number = 1,
        suggestion = ''Add explicit loop counter and bounds checking'',
        code_snippet = ''while (1) { x++; }''\<rparr>]"
proof -
  have m: "matched (re_match rx_while_paren ''while (1) { x++; }'')"
    by code_simp
  have n1: "\<not> py_in ''MAX_'' ''while (1) { x++; }''" by code_simp
  have n2: "\<not> py_in ''count'' ''while (1) { x++; }''" by code_simp
  have n3: "\<not> py_in ''size'' ''while (1) { x++; }''" by code_simp
  have n4: "\<not> py_in ''length'' ''while (1) { x++; }''" by code_simp
  have p: "py_in ''1'' ''while (1) { x++; }''" by code_simp
  have s: "strip ''while (1) { x++; }'' = ''while (1) { x++; }''" by code_simp
  show ?thesis
    using C9_two_violations [of 0 "\<lparr>violations = [], code_lines = [''while (1) { x++; }'']\<rparr>"]
      m n1 n2 n3 n4 p s
    by simp
qed

section \<open>Rule 10\<close>

lemma rule_10_line_found: "violations (rule_10_line x s) = violations s @ rule_10_found x"
  by (cases x) (simp add: rule_10_line_def rule_10_found_def)

lemma rule_10_found_lines: "list_all (\<lambda>v. line_number v = i) (rule_10_found (i, l))"
  by (simp add: rule_10_found_def)

lemma check_rule_10_found:
  "violations (check_rule_10_multiple_assignments s)
   = violations s @ concat (map rule_10_found (enumerate1 (code_lines s)))"
  unfolding check_rule_10_multiple_assignments_def
  by (rule fold_appends) (rule rule_10_line_found)

lemma check_rule_10_at_line:
  assumes "k < length (code_lines s)"
  shows "filter (\<lambda>v. line_number v = int k + 1) (violations (check_rule_10_multiple_assignments s))
         = filter (\<lambda>v. line_number v = int k + 1) (violations s)
           @ rule_10_found (int k + 1, code_lines s ! k)"
  using filter_line_enumerate1 [OF assms, of rule_10_found, OF rule_10_found_lines]
  by (simp add: check_rule_10_found)

text \<open>
  C10. Rule 10 counts the characters \<^verbatim>\<open>=\<close> whatever operator they belong to: a line with
  more than one \<^verbatim>\<open>=\<close> and without \<^verbatim>\<open>==\<close> gets exactly one rule 10 violation of severity
  minor. The witness is the line \<^verbatim>\<open>if (a != b && c != d)\<close>, whose two \<^verbatim>\<open>=\<close> both come from
  \<^verbatim>\<open>!=\<close>.
\<close>

theorem C10_counts_every_equals_sign:
  assumes "k < length (code_lines self)"
    and "py_count (code_lines self ! k) (CHR ''='') > 1"
    and "\<not> py_in ''=='' (code_lines self ! k)"
  shows "filter (\<lambda>v. line_number v = int k + 1)
           (violations (check_rule_10_multiple_assignments self))
         = filter (\<lambda>v. line_number v = int k + 1) (violations self)
           @ [\<lparr>rule_id = ''rule_10'', rule_name = ''Multiple Assignments'',
                description = ''Multiple assignments in single statement detected'',
                severity = MINOR, line_number = int k + 1,
                suggestion = ''Use separate assignment statements'',
                code_snippet = strip (code_lines self ! k)\<rparr>]"
  using assms by (simp add: check_rule_10_at_line rule_10_found_def)

theorem C10_counts_every_equals_sign_witness:
  "filter (\<lambda>v. line_number v = 1)
     (violations (check_rule_10_multiple_assignments
        \<lparr>violations = [], code_lines = [''if (a != b && c != d)'']\<rparr>))
   = [\<lparr>rule_id = ''rule_10'', rule_name = ''Multiple Assignments'',
        description = ''Multiple assignments in single statement detected'',
        severity = MINOR, line_number = 1,
        suggestion = ''Use separate assignment statements'',
        code_snippet = ''if (a != b && c != d)''\<rparr>]"
proof -
  have c: "py_count ''if (a != b && c != d)'' (CHR ''='') > 1" by code_simp
  have n: "\<not> py_in ''=='' ''if (a != b && c != d)''" by code_simp
  have s: "strip ''if (a != b && c != d)'' = ''if (a != b && c != d)''" by code_simp
  show ?thesis
    using C10_counts_every_equals_sign
            [of 0 "\<lparr>violations = [], code_lines = [''if (a != b && c != d)'']\<rparr>"] c n s
    by simp
qed


section \<open>Runs on concrete sources\<close>

text \<open>
  C7. On the empty source \<^verbatim>\<open>check_all_rules\<close> returns the empty violation list, the score
  is 100 and the level is \<^verbatim>\<open>fully_compliant\<close>.
\<close>

theorem C7_empty_source:
  "check_all_rules (load_code init_checker []) = Inr \<lparr>violations = [], code_lines = [[]]\<rparr>
   \<and> calculate_compliance_score \<lparr>violations = [], code_lines = [[]]\<rparr> = 100
   \<and> get_compliance_level \<lparr>violations = [], code_lines = [[]]\<rparr> = ''fully_compliant''"
proof (intro conjI)
  show "check_all_rules (load_code init_checker []) = Inr \<lparr>violations = [], code_lines = [[]]\<rparr>"
    by code_simp
  show "calculate_compliance_score \<lparr>violations = [], code_lines = [[]]\<rparr> = 100"
    by (simp add: calculate_compliance_score_def)
  show "get_compliance_level \<lparr>violations = [], code_lines = [[]]\<rparr> = ''fully_compliant''"
    by (simp add: get_compliance_level_def calculate_compliance_score_def)
qed

text \<open>
  C2. The second test of rule 2 looks for \<^verbatim>\<open>true\<close>, \<^verbatim>\<open>1\<close> or \<^verbatim>\<open>!0\<close> anywhere in a line that
  contains \<^verbatim>\<open>while\<close>, not for a loop whose condition is one of them: the bounded loop
  \<^verbatim>\<open>while (counter < 10) {\<close> is reported as a potential infinite loop, because \<^verbatim>\<open>10\<close>
  contains \<^verbatim>\<open>1\<close>. The line comes from the sample of \<^verbatim>\<open>test_compliant_code\<close>, which expects
  no violation; \<^verbatim>\<open>_check_rule_2_loop_bounds\<close> reports its line 11.
\<close>

theorem C2_bounded_loop_flagged:
  "load_code init_checker ''    while (counter < 10) {''
     = \<lparr>violations = [], code_lines = [''    while (counter < 10) {'']\<rparr>
   \<and> violations (check_rule_2_loop_bounds
        \<lparr>violations = [], code_lines = [''    while (counter < 10) {'']\<rparr>)
     = [\<lparr>rule_id = ''rule_2'', rule_name = ''Fixed Loop Bounds'',
          description = ''Potential infinite loop detected'',
          severity = MAJOR, line_number = 1,
          suggestion = ''Add explicit loop counter and bounds checking'',
          code_snippet = ''while (counter < 10) {''\<rparr>]
   \<and> violations (check_rule_2_loop_bounds (load_code init_checker compliant_code))
     = [\<lparr>rule_id = ''rule_2'', rule_name = ''Fixed Loop Bounds'',
          description = ''Potential infinite loop detected'',
          severity = MAJOR, line_number = 11,
          suggestion = ''Add explicit loop counter and bounds checking'',
          code_snippet = ''while (counter < 10) {''\<rparr>]"
proof (intro conjI)
  show "load_code init_checker ''    while (counter < 10) {''
     = \<lparr>violations = [], code_lines = [''    while (counter < 10) {'']\<rparr>"
    by code_simp
  show "violations (check_rule_2_loop_bounds
        \<lparr>violations = [], code_lines = [''    while (counter < 10) {'']\<rparr>)
     = [\<lparr>rule_id = ''rule_2'', rule_name = ''Fixed Loop Bounds'',
          description = ''Potential infinite loop detected'',
          severity = MAJOR, line_number = 1,
          suggestion = ''Add explicit loop counter and bounds checking'',
          code_snippet = ''while (counter < 10) {''\<rparr>]"
    by code_simp
  show "violations (check_rule_2_loop_bounds (load_code init_checker compliant_code))
     = [\<lparr>rule_id = ''rule_2'', rule_name = ''Fixed Loop Bounds'',
          description = ''Potential infinite loop detected'',
          severity = MAJOR, line_number = 11,
          suggestion = ''Add explicit loop counter and bounds checking'',
          code_snippet = ''while (counter < 10) {''\<rparr>]"
    by code_simp
qed

text \<open>
  C3. The scan for a recursive call runs over every line after the signature, to the end
  of the file, and not only over the body of the function: \<^verbatim>\<open>helper\<close>, which calls nothing,
  is reported as recursive because \<^verbatim>\<open>caller\<close>, defined after it, calls it.
\<close>

theorem C3_call_from_another_function:
  "load_code init_checker
     ''int helper(int a) {\<newline>    return a;\<newline>}\<newline>int caller(int b) {\<newline>    return helper(b);\<newline>}''
     = \<lparr>violations = [],
        code_lines = [''int helper(int a) {'', ''    return a;'', ''}'',
                      ''int caller(int b) {'', ''    return helper(b);'', ''}'']\<rparr>
   \<and> violations (check_rule_1_flow_control
        \<lparr>violations = [],
         code_lines = [''int helper(int a) {'', ''    return a;'', ''}'',
                       ''int caller(int b) {'', ''    return helper(b);'', ''}'']\<rparr>)
     = [\<lparr>rule_id = ''rule_1'', rule_name = ''Avoid Complex Flow Control'',
          description = ''Recursive function call detected'',
          severity = CRITICAL, line_number = 1,
          suggestion = ''Use iterative approach instead of recursion'',
          code_snippet = ''int helper(int a) {''\<rparr>]"
proof (intro conjI)
  show "load_code init_checker
     ''int helper(int a) {\<newline>    return a;\<newline>}\<newline>int caller(int b) {\<newline>    return helper(b);\<newline>}''
     = \<lparr>violations = [],
        code_lines = [''int helper(int a) {'', ''    return a;'', ''}'',
                      ''int caller(int b) {'', ''    return helper(b);'', ''}'']\<rparr>"
    by code_simp
  show "violations (check_rule_1_flow_control
        \<lparr>violations = [],
         code_lines = [''int helper(int a) {'', ''    return a;'', ''}'',
                       ''int caller(int b) {'', ''    return helper(b);'', ''}'']\<rparr>)
     = [\<lparr>rule_id = ''rule_1'', rule_name = ''Avoid Complex Flow Control'',
          description = ''Recursive function call detected'',
          severity = CRITICAL, line_number = 1,
          suggestion = ''Use iterative approach instead of recursion'',
          code_snippet = ''int helper(int a) {''\<rparr>]"
    by code_simp
qed


end
